theory Spec2Isabelle
  imports Main
begin

section \<open>JavaScript strings, numbers and errors\<close>

text \<open>
  A JavaScript string is modelled as a \<open>string\<close>; one \<open>char\<close> stands for one
  code unit below 256. Numbers obtained by \<open>parseInt\<close> from a digit run are modelled
  as exact integers (the doubles of JavaScript agree with them below \<open>2 ^ 53\<close>), and
  an array may have any length: rounding and the limit on the length of an array
  are left out. The sentinels \<open>Infinity\<close> and \<open>-Infinity\<close> used by \<open>Math.max()\<close>
  and by the bounds reduction are kept as values of their own.
\<close>

datatype jsnum = NegInfinity | Num int | PosInfinity

fun jsnum_le :: "jsnum \<Rightarrow> jsnum \<Rightarrow> bool" where
  "jsnum_le NegInfinity _ = True"
| "jsnum_le _ PosInfinity = True"
| "jsnum_le (Num a) (Num b) = (a \<le> b)"
| "jsnum_le _ _ = False"

definition Math_min :: "jsnum \<Rightarrow> jsnum \<Rightarrow> jsnum" where
  "Math_min a b = (if jsnum_le a b then a else b)"

definition Math_max :: "jsnum \<Rightarrow> jsnum \<Rightarrow> jsnum" where
  "Math_max a b = (if jsnum_le a b then b else a)"

text \<open>The errors the two programs throw: the constructor is the error's name, the
  argument its message.\<close>

datatype error = Error string | TypeError string | DataError string

text \<open>Character classes of the regular expressions: \<open>\d\<close>, \<open>\D\<close>, \<open>\s\<close>,
  \<open>\S\<close> and the dot, which matches everything but a line terminator.\<close>

definition isDigit :: "char \<Rightarrow> bool" where
  "isDigit c \<longleftrightarrow> c \<in> set ''0123456789''"

definition isNonDigit :: "char \<Rightarrow> bool" where
  "isNonDigit c \<longleftrightarrow> \<not> isDigit c"

definition isSpace :: "char \<Rightarrow> bool" where
  "isSpace c \<longleftrightarrow>
     c \<in> set [CHR 0x09, CHR 0x0A, CHR 0x0B, CHR 0x0C, CHR 0x0D, CHR '' '', CHR 0xA0]"

definition isNonSpace :: "char \<Rightarrow> bool" where
  "isNonSpace c \<longleftrightarrow> \<not> isSpace c"

definition isDot :: "char \<Rightarrow> bool" where
  "isDot c \<longleftrightarrow> c \<noteq> CHR 0x0A \<and> c \<noteq> CHR 0x0D"

definition isComma :: "char \<Rightarrow> bool" where
  "isComma c \<longleftrightarrow> c = CHR '',''"

text \<open>\<open>String.prototype.trim\<close>: white space is removed at both ends.\<close>

definition trim :: "string \<Rightarrow> string" where
  "trim s = rev (dropWhile isSpace (rev (dropWhile isSpace s)))"

text \<open>\<open>parseInt(s, 10)\<close> on a run of decimal digits.\<close>

definition parseInt :: "string \<Rightarrow> int" where
  "parseInt s = foldl (\<lambda>a c. 10 * a + (int (of_char c) - 48)) 0 s"

text \<open>\<open>content.split('\n')\<close>: the pieces between the newlines, at least one piece.\<close>

fun split_nl :: "string \<Rightarrow> string list" where
  "split_nl [] = [[]]"
| "split_nl (c # cs) =
     (if c = CHR 0x0A then [] # split_nl cs
      else (case split_nl cs of
              [] \<Rightarrow> [[c]]
            | l # ls \<Rightarrow> (c # l) # ls))"

section \<open>A backtracking matcher for the regular expressions of \<open>parseCharacters\<close>\<close>

text \<open>
  Each of the three patterns is a sequence of character classes, each taken once,
  with \<open>*\<close> or with \<open>+\<close>, some of them captured. A quantified class is greedy: the
  longest run is tried first, then the shorter ones. \<open>line.match(pattern)\<close> has no
  \<open>g\<close> flag and is not anchored: it returns the match at the leftmost position where
  one exists, or \<open>null\<close>.
\<close>

datatype quant = Once | Star | Plus

datatype atom = Atom (cls: "char \<Rightarrow> bool") (qnt: quant) (captured: bool)

primrec first_some :: "('a \<Rightarrow> 'b option) \<Rightarrow> 'a list \<Rightarrow> 'b option" where
  "first_some f [] = None"
| "first_some f (x # xs) = (case f x of Some y \<Rightarrow> Some y | None \<Rightarrow> first_some f xs)"

text \<open>The lengths a quantified class may take, in the order they are tried, when
  the longest run of the class at the current position has length \<open>k\<close>.\<close>

fun tryLengths :: "quant \<Rightarrow> nat \<Rightarrow> nat list" where
  "tryLengths Once k = (if 0 < k then [1] else [])"
| "tryLengths Star k = rev [0..<Suc k]"
| "tryLengths Plus k = rev [1..<Suc k]"

primrec matchHere :: "atom list \<Rightarrow> string \<Rightarrow> string list option" where
  "matchHere [] s = Some []"
| "matchHere (a # as) s =
     first_some
       (\<lambda>n. case matchHere as (drop n s) of
               None \<Rightarrow> None
             | Some gs \<Rightarrow> Some (if captured a then take n s # gs else gs))
       (tryLengths (qnt a) (length (takeWhile (cls a) s)))"

text \<open>The result is the list of captured groups (\<open>match[1]\<close>, \<open>match[2]\<close>, ...).\<close>

definition regex_match :: "atom list \<Rightarrow> string \<Rightarrow> string list option" where
  "regex_match re s = first_some (\<lambda>i. matchHere re (drop i s)) [0..<Suc (length s)]"

section \<open>The plain-text program: \<open>decodeSecretMessage\<close>\<close>

record character =
  rec_char :: string
  rec_x :: int
  rec_y :: int

text \<open>The three patterns, in the order of the source:
  \<^verbatim>\<open>/(.)\s+(\d+)\s+(\d+)/\<close>, \<^verbatim>\<open>/(.),\s*(\d+),\s*(\d+)/\<close> and \<^verbatim>\<open>/(\S+)\s+(\d+)\s+(\d+)/\<close>.\<close>

definition patterns :: "atom list list" where
  "patterns =
    [[Atom isDot Once True, Atom isSpace Plus False, Atom isDigit Plus True,
      Atom isSpace Plus False, Atom isDigit Plus True],
     [Atom isDot Once True, Atom isComma Once False, Atom isSpace Star False,
      Atom isDigit Plus True, Atom isComma Once False, Atom isSpace Star False,
      Atom isDigit Plus True],
     [Atom isNonSpace Plus True, Atom isSpace Plus False, Atom isDigit Plus True,
      Atom isSpace Plus False, Atom isDigit Plus True]]"

text \<open>The body of the inner \<open>map\<close>: the first pattern that matches gives the record,
  no pattern gives \<open>null\<close>.\<close>

definition parseLine :: "string \<Rightarrow> character option" where
  "parseLine line =
     first_some
       (\<lambda>pattern. case regex_match pattern line of
                    Some [c, xs, ys] \<Rightarrow>
                      Some \<lparr>rec_char = c, rec_x = parseInt xs, rec_y = parseInt ys\<rparr>
                  | _ \<Rightarrow> None)
       patterns"

text \<open>The chain after \<open>split\<close>: trim every line, drop the blank ones, parse, drop
  the \<open>null\<close>s.\<close>

definition parseLines :: "string list \<Rightarrow> character list" where
  "parseLines ls = List.map_filter parseLine (filter (\<lambda>l. l \<noteq> []) (map trim ls))"

definition parseCharacters :: "string \<Rightarrow> character list" where
  "parseCharacters content = parseLines (split_nl content)"

text \<open>The bounds reduction, a left fold from the sentinels.\<close>

record bounds =
  minX :: jsnum
  maxX :: jsnum
  minY :: jsnum
  maxY :: jsnum

definition boundsStep :: "bounds \<Rightarrow> character \<Rightarrow> bounds" where
  "boundsStep acc c =
     \<lparr>minX = Math_min (minX acc) (Num (rec_x c)),
      maxX = Math_max (maxX acc) (Num (rec_x c)),
      minY = Math_min (minY acc) (Num (rec_y c)),
      maxY = Math_max (maxY acc) (Num (rec_y c))\<rparr>"

definition initialBounds :: bounds where
  "initialBounds =
     \<lparr>minX = PosInfinity, maxX = NegInfinity, minY = PosInfinity, maxY = NegInfinity\<rparr>"

definition computeBounds :: "character list \<Rightarrow> bounds" where
  "computeBounds characters = foldl boundsStep initialBounds characters"

text \<open>A grid is an array of rows, a row an array of cells, a cell a string.\<close>

type_synonym grid = "string list list"

text \<open>\<open>Array.from({ length: h }, () => Array.from({ length: w }, () => ' '))\<close>;
  a length below zero gives the empty array.\<close>

definition blankGrid :: "int \<Rightarrow> int \<Rightarrow> grid" where
  "blankGrid w h = replicate (nat h) (replicate (nat w) '' '')"

text \<open>
  \<open>row[i] = v\<close> on an array: inside the array the element is replaced; past its end
  the array grows, and the holes in between read as the empty string under
  \<open>join\<close>; a negative index sets a property and leaves the elements alone.
\<close>

definition setIndex :: "string list \<Rightarrow> int \<Rightarrow> string \<Rightarrow> string list" where
  "setIndex row i v =
     (if i < 0 then row
      else if nat i < length row then row[nat i := v]
      else row @ replicate (nat i - length row) [] @ [v])"

text \<open>\<open>grid[r][c] = v\<close>: where \<open>grid[r]\<close> is \<open>undefined\<close> the assignment throws.\<close>

definition assignCell :: "grid \<Rightarrow> int \<Rightarrow> int \<Rightarrow> string \<Rightarrow> error + grid" where
  "assignCell g r c v =
     (if 0 \<le> r \<and> nat r < length g then Inr (g[nat r := setIndex (g ! nat r) c v])
      else Inl (TypeError ''Cannot set properties of undefined''))"

text \<open>The \<open>forEach\<close> that writes every record at \<open>[y - minY][x - minX]\<close>.\<close>

fun placeAll :: "int \<Rightarrow> int \<Rightarrow> grid \<Rightarrow> character list \<Rightarrow> error + grid" where
  "placeAll mnx mny g [] = Inr g"
| "placeAll mnx mny g (c # cs) =
     (case assignCell g (rec_y c - mny) (rec_x c - mnx) (rec_char c) of
        Inl e \<Rightarrow> Inl e
      | Inr g' \<Rightarrow> placeAll mnx mny g' cs)"

text \<open>
  Bounds, allocation and painting for the parsed records. Sentinel bounds are left
  only by an empty record list, where the length \<open>-Infinity\<close> allocates the empty grid.
\<close>

definition buildGrid :: "character list \<Rightarrow> error + grid" where
  "buildGrid characters =
     (let b = computeBounds characters in
      case (minX b, maxX b, minY b, maxY b) of
        (Num mnx, Num mxx, Num mny, Num mxy) \<Rightarrow>
          placeAll mnx mny (blankGrid (mxx - mnx + 1) (mxy - mny + 1)) characters
      | _ \<Rightarrow> Inr [])"

text \<open>The program after the fetch: the result is the error thrown, or the lines
  written by \<open>console.log\<close>.\<close>

definition decodeSecretMessage :: "string \<Rightarrow> error + string list" where
  "decodeSecretMessage content =
     (let characters = parseCharacters content in
      if characters = [] then Inl (Error ''No character data found'')
      else case buildGrid characters of
             Inl e \<Rightarrow> Inl e
           | Inr g \<Rightarrow> Inr (''Secret Message:'' # map concat g))"

section \<open>The table program: \<open>extractDataFromRows\<close> and \<open>buildAndRenderGrid\<close>\<close>

text \<open>
  The file holds the program twice, with classes and without; the two copies of
  \<open>extractDataFromRows\<close> and of \<open>buildAndRenderGrid\<close> agree statement by statement
  (the second reads \<open>row?.textContent\<close>), so one model serves both.

  A row is given by its \<open>textContent\<close>, \<open>None\<close> where it is \<open>null\<close>.
\<close>

type_synonym row = "string option"

text \<open>The maximal runs of a character class, left to right: the matched texts of
  \<open>text.matchAll(/\d+/g)\<close> and \<open>text.matchAll(/\D+/g)\<close>.\<close>

function runs :: "(char \<Rightarrow> bool) \<Rightarrow> string \<Rightarrow> string list" where
  "runs p s =
     (case dropWhile (\<lambda>c. \<not> p c) s of
        [] \<Rightarrow> []
      | c # cs \<Rightarrow> (c # takeWhile p cs) # runs p (dropWhile p cs))"
  by pat_completeness auto
termination
proof (relation "measure (\<lambda>(p, s). length s)")
  show "wf (measure (\<lambda>(p, s). length s))" by simp
next
  fix p :: "char \<Rightarrow> bool" and s :: string and c cs
  assume a: "dropWhile (\<lambda>c. \<not> p c) s = c # cs"
  have "length (dropWhile p cs) \<le> length cs" by (rule length_dropWhile_le)
  moreover have "length (c # cs) \<le> length s"
    using length_dropWhile_le [of "\<lambda>c. \<not> p c" s] a by simp
  ultimately show "((p, dropWhile p cs), (p, s)) \<in> measure (\<lambda>(p, s). length s)" by simp
qed

declare runs.simps [simp del]

text \<open>
  An element of \<open>Array.from(text.matchAll(re))\<close> is a match array, not a string: its
  element \<open>m[0]\<close> is the matched text, which the source reads for the digit runs
  (\<open>.map(m => m[0])\<close>, lines 116 and 328). For the runs of non-digits the source
  calls \<open>.map(m => m.trim())\<close> (lines 117 and 329): an array has no method
  \<open>trim\<close>, so the call \<open>m.trim()\<close> on a match array throws a \<open>TypeError\<close>.
\<close>

datatype regmatch = RegMatch string

definition matchAll :: "(char \<Rightarrow> bool) \<Rightarrow> string \<Rightarrow> regmatch list" where
  "matchAll p s = map RegMatch (runs p s)"

fun index0 :: "regmatch \<Rightarrow> string" where
  "index0 (RegMatch s) = s"

definition trim_method :: "regmatch \<Rightarrow> error + string" where
  "trim_method m = Inl (TypeError ''m.trim is not a function'')"

text \<open>\<open>Array.prototype.map\<close> with a callback that may throw: the first exception
  ends the loop.\<close>

fun mapE :: "('a \<Rightarrow> error + 'b) \<Rightarrow> 'a list \<Rightarrow> error + 'b list" where
  "mapE f [] = Inr []"
| "mapE f (x # xs) =
     (case f x of
        Inl e \<Rightarrow> Inl e
      | Inr y \<Rightarrow> (case mapE f xs of Inl e \<Rightarrow> Inl e | Inr ys \<Rightarrow> Inr (y # ys)))"

text \<open>An element of \<open>chars\<close> is the array \<open>nonDigits\<close> or the string \<open>' '\<close>.\<close>

datatype jsval = Str string | Arr "string list"

fun join_comma :: "string list \<Rightarrow> string" where
  "join_comma [] = []"
| "join_comma [s] = s"
| "join_comma (s # t # ts) = s @ '','' @ join_comma (t # ts)"

text \<open>\<open>String(ch)\<close>: an array is joined with commas.\<close>

fun jsString :: "jsval \<Rightarrow> string" where
  "jsString (Str s) = s"
| "jsString (Arr ss) = join_comma ss"

text \<open>
  The body of the loop of \<open>extractDataFromRows\<close> for one row: the pair pushed on
  \<open>coords\<close> and the value pushed on \<open>chars\<close>, or the exception. The statements
  are taken in the order of the source: \<open>digits\<close> (with \<open>m => m[0]\<close>), then
  \<open>nonDigits\<close> (with \<open>m => m.trim()\<close>), then the test of \<open>digits.length\<close>.
  The numbers \<open>x\<close> and \<open>y\<close> come from digit runs and are integers here, so the
  test of \<open>Number.isFinite\<close> that follows has no failing branch.
\<close>

definition extractRow :: "row \<Rightarrow> error + ((int \<times> int) \<times> jsval)" where
  "extractRow r =
     (let text = (case r of None \<Rightarrow> [] | Some t \<Rightarrow> t);
          digits = map index0 (matchAll isDigit text)
      in case mapE trim_method (matchAll isNonDigit text) of
           Inl e \<Rightarrow> Inl e
         | Inr trimmed \<Rightarrow>
             (let nonDigits = filter (\<lambda>t. t \<noteq> []) trimmed
              in if length digits < 2
                 then Inl (DataError (''Row missing at least two coordinates: '' @
                                      [CHR 0x22] @ text @ [CHR 0x22]))
                 else (let x = parseInt (digits ! 0);
                           y = parseInt (digits ! 1);
                           c = (if nonDigits \<noteq> [] then Arr nonDigits else Str '' '')
                       in Inr ((x, y), c))))"

fun extractDataFromRows :: "row list \<Rightarrow> error + ((int \<times> int) list \<times> jsval list)" where
  "extractDataFromRows [] = Inr ([], [])"
| "extractDataFromRows (r # rs) =
     (case extractRow r of
        Inl e \<Rightarrow> Inl e
      | Inr (xy, c) \<Rightarrow>
          (case extractDataFromRows rs of
             Inl e \<Rightarrow> Inl e
           | Inr (coords, chars) \<Rightarrow> Inr (xy # coords, c # chars)))"

text \<open>\<open>Math.max(...xs)\<close>, which is \<open>-Infinity\<close> for no argument, and \<open>n + 1\<close>.\<close>

definition Math_max_list :: "int list \<Rightarrow> jsnum" where
  "Math_max_list xs = foldl Math_max NegInfinity (map Num xs)"

fun plus1 :: "jsnum \<Rightarrow> jsnum" where
  "plus1 (Num n) = Num (n + 1)"
| "plus1 v = v"

text \<open>The numbers in the message of the size error, as \<open>${maxX}\<close> prints them.\<close>

fun showNat :: "nat \<Rightarrow> string" where
  "showNat n =
     (if n < 10 then [char_of (48 + n)]
      else showNat (n div 10) @ [char_of (48 + n mod 10)])"

declare showNat.simps [simp del]

fun showNum :: "jsnum \<Rightarrow> string" where
  "showNum NegInfinity = ''-Infinity''"
| "showNum PosInfinity = ''Infinity''"
| "showNum (Num n) = (if n < 0 then ''-'' @ showNat (nat (- n)) else showNat (nat n))"

text \<open>The body of the painting loop: a record out of the grid is skipped.\<close>

definition placeChar :: "grid \<Rightarrow> (int \<times> int) \<times> jsval \<Rightarrow> grid" where
  "placeChar g r =
     (case r of ((x, y), ch) \<Rightarrow>
        if x < 0 then g
        else if y < 0 then g
        else if int (length g) \<le> y then g
        else if int (length (g ! 0)) \<le> x then g
        else (let printable = jsString ch
              in g[nat y := setIndex (g ! nat y) x
                              (if 0 < length printable then printable else '' '')]))"

text \<open>The loop runs over the indices of \<open>coords\<close>; it is entered only when
  \<open>chars\<close> has the same length, so it visits the pairs of \<open>zip coords chars\<close>.\<close>

definition paint :: "grid \<Rightarrow> ((int \<times> int) \<times> jsval) list \<Rightarrow> grid" where
  "paint g rs = foldl placeChar g rs"

definition gridWidth :: "(int \<times> int) list \<Rightarrow> jsnum" where
  "gridWidth coords = plus1 (Math_max_list (map fst coords))"

definition gridHeight :: "(int \<times> int) list \<Rightarrow> jsnum" where
  "gridHeight coords = plus1 (Math_max_list (map snd coords))"

definition sizeError :: "jsnum \<Rightarrow> jsnum \<Rightarrow> error" where
  "sizeError w h = DataError (''Invalid grid size computed: '' @ showNum w @ ''x'' @ showNum h)"

text \<open>The grid after the painting loop, for a size that passed the check.\<close>

definition paintedGrid :: "(int \<times> int) list \<Rightarrow> jsval list \<Rightarrow> int \<Rightarrow> int \<Rightarrow> grid" where
  "paintedGrid coords chars w h = paint (blankGrid w h) (zip coords chars)"

text \<open>\<open>buildAndRenderGrid\<close>: the error thrown, or the lines written, the row of the
  highest index first. The variables \<open>maxX\<close> and \<open>maxY\<close> of the source are
  \<open>gridWidth coords\<close> and \<open>gridHeight coords\<close>.\<close>

definition buildAndRenderGrid :: "(int \<times> int) list \<Rightarrow> jsval list \<Rightarrow> error + string list" where
  "buildAndRenderGrid coords chars =
     (if length coords \<noteq> length chars
      then Inl (DataError ''Coordinates and characters length mismatch'')
      else if length coords = 0 then Inr [[]]
      else case (gridWidth coords, gridHeight coords) of
             (Num w, Num h) \<Rightarrow>
               if w \<le> 0 \<or> h \<le> 0 then Inl (sizeError (Num w) (Num h))
               else Inr (map concat (rev (paintedGrid coords chars w h)))
           | (w, h) \<Rightarrow> Inl (sizeError w h))"

text \<open>\<open>renderFromUrl\<close> after the rows have been read.\<close>

definition renderRows :: "row list \<Rightarrow> error + string list" where
  "renderRows rows =
     (case extractDataFromRows rows of
        Inl e \<Rightarrow> Inl e
      | Inr (coords, chars) \<Rightarrow> buildAndRenderGrid coords chars)"

section \<open>Notions used in the statements\<close>

text \<open>The example of three lines, joined by newlines as a document holds them.\<close>

definition exampleContent :: string where
  "exampleContent = ''A 3 4'' @ [CHR 0x0A] @ ''B, 1, 2'' @ [CHR 0x0A] @ ''C 0 0''"

text \<open>A grid of \<open>h\<close> rows that all have \<open>w\<close> cells.\<close>

definition rect :: "nat \<Rightarrow> nat \<Rightarrow> grid \<Rightarrow> bool" where
  "rect w h g \<longleftrightarrow> length g = h \<and> list_all (\<lambda>row. length row = w) g"

text \<open>The grid with the cell of row \<open>r\<close> and column \<open>c\<close> replaced.\<close>

definition writeCell :: "grid \<Rightarrow> nat \<Rightarrow> nat \<Rightarrow> string \<Rightarrow> grid" where
  "writeCell g r c v = g[r := (g ! r)[c := v]]"

text \<open>The cell (row, column) that the plain-text program writes a record to.\<close>

definition plainCell :: "int \<Rightarrow> int \<Rightarrow> character \<Rightarrow> nat \<times> nat" where
  "plainCell mnx mny k = (nat (rec_y k - mny), nat (rec_x k - mnx))"

text \<open>The coordinates and the extremes of a record list.\<close>

definition xsOf :: "character list \<Rightarrow> int list" where
  "xsOf characters = map rec_x characters"

definition ysOf :: "character list \<Rightarrow> int list" where
  "ysOf characters = map rec_y characters"

definition least :: "int list \<Rightarrow> int" where
  "least ns = Min (set ns)"

definition greatest :: "int list \<Rightarrow> int" where
  "greatest ns = Max (set ns)"

text \<open>The test of the painting loop of the table program, on the size of the grid.\<close>

definition outside :: "nat \<Rightarrow> nat \<Rightarrow> int \<times> int \<Rightarrow> bool" where
  "outside w h xy \<longleftrightarrow> fst xy < 0 \<or> snd xy < 0 \<or> int h \<le> snd xy \<or> int w \<le> fst xy"

text \<open>What the table program writes into the cell for an element of \<open>chars\<close>.\<close>

definition cellText :: "jsval \<Rightarrow> string" where
  "cellText ch = (if 0 < length (jsString ch) then jsString ch else '' '')"

text \<open>The cell (row, column) that the table program writes a pair to.\<close>

definition tableCell :: "(int \<times> int) \<times> jsval \<Rightarrow> nat \<times> nat" where
  "tableCell r = (nat (snd (fst r)), nat (fst (fst r)))"

section \<open>Rectangular grids and cell writes\<close>

lemma rect_blankGrid: "rect (nat w) (nat h) (blankGrid w h)"
  by (simp add: rect_def blankGrid_def list_all_iff)

lemma rect_row: "rect w h g \<Longrightarrow> r < h \<Longrightarrow> length (g ! r) = w"
  by (simp add: rect_def list_all_length)

lemma rect_writeCell: "rect w h g \<Longrightarrow> rect w h (writeCell g r c v)"
proof (cases "r < length g")
  case True
  assume "rect w h g"
  with True show ?thesis
    by (auto simp: rect_def writeCell_def list_all_length nth_list_update)
next
  case False
  assume "rect w h g"
  with False show ?thesis
    by (simp add: writeCell_def not_less list_update_beyond)
qed

lemma writeCell_nth:
  "rect w h g \<Longrightarrow> r < h \<Longrightarrow> c < w \<Longrightarrow> r' < h \<Longrightarrow> c' < w \<Longrightarrow>
   writeCell g r' c' v ! r ! c = (if r = r' \<and> c = c' then v else g ! r ! c)"
  by (auto simp: rect_def writeCell_def list_all_length nth_list_update)

lemma setIndex_inside: "0 \<le> i \<Longrightarrow> nat i < length row \<Longrightarrow> setIndex row i v = row[nat i := v]"
  by (simp add: setIndex_def)

lemma blankGrid_nth: "r < nat h \<Longrightarrow> c < nat w \<Longrightarrow> blankGrid w h ! r ! c = '' ''"
  by (simp add: blankGrid_def)


text \<open>A sequence of cell writes keeps the shape of the grid, and a cell holds what
  the last write to it put there.\<close>

lemma foldl_writeCell_rect:
  "rect w h g \<Longrightarrow> rect w h (foldl (\<lambda>g k. writeCell g (fst (t k)) (snd (t k)) (val k)) g ks)"
  by (induction ks arbitrary: g) (simp_all add: rect_writeCell)

lemma foldl_writeCell_nth:
  assumes "rect w h g" "r < h" "c < w" "\<forall>k\<in>set ks. fst (t k) < h \<and> snd (t k) < w"
  shows "foldl (\<lambda>g k. writeCell g (fst (t k)) (snd (t k)) (val k)) g ks ! r ! c =
         (case find (\<lambda>k. t k = (r, c)) (rev ks) of None \<Rightarrow> g ! r ! c | Some k \<Rightarrow> val k)"
  using assms(4)
proof (induction ks rule: rev_induct)
  case Nil
  then show ?case by simp
next
  case (snoc k ks)
  let ?G = "foldl (\<lambda>g k. writeCell g (fst (t k)) (snd (t k)) (val k)) g ks"
  have R: "rect w h ?G" using assms(1) by (rule foldl_writeCell_rect)
  have k: "fst (t k) < h" "snd (t k) < w" using snoc.prems by simp_all
  have IH: "?G ! r ! c = (case find (\<lambda>k. t k = (r, c)) (rev ks) of None \<Rightarrow> g ! r ! c | Some k \<Rightarrow> val k)"
    using snoc by simp
  show ?case
    using writeCell_nth [OF R assms(2) assms(3) k, of "val k"] IH
    by (cases "t k") auto
qed


section \<open>Bounds and extremes\<close>

lemma Math_min_Num: "Math_min (Num a) (Num b) = Num (min a b)"
  by (simp add: Math_min_def min_def)

lemma Math_max_Num: "Math_max (Num a) (Num b) = Num (max a b)"
  by (simp add: Math_max_def max_def)

lemma foldl_boundsStep_Num:
  "foldl boundsStep \<lparr>minX = Num a, maxX = Num b, minY = Num c, maxY = Num d\<rparr> cs =
     \<lparr>minX = Num (fold min (xsOf cs) a), maxX = Num (fold max (xsOf cs) b),
      minY = Num (fold min (ysOf cs) c), maxY = Num (fold max (ysOf cs) d)\<rparr>"
  by (induction cs arbitrary: a b c d)
     (simp_all add: boundsStep_def Math_min_Num Math_max_Num xsOf_def ysOf_def min.commute max.commute)

lemma least_Cons: "least (n # ns) = fold min ns n"
  by (simp only: least_def Min.set_eq_fold)

lemma greatest_Cons: "greatest (n # ns) = fold max ns n"
  by (simp only: greatest_def Max.set_eq_fold)

lemma least_le: "n \<in> set ns \<Longrightarrow> least ns \<le> n"
  by (simp add: least_def)

lemma le_greatest: "n \<in> set ns \<Longrightarrow> n \<le> greatest ns"
  by (simp add: greatest_def)

lemma computeBounds_extremes:
  assumes "cs \<noteq> []"
  shows "computeBounds cs =
     \<lparr>minX = Num (least (xsOf cs)), maxX = Num (greatest (xsOf cs)),
      minY = Num (least (ysOf cs)), maxY = Num (greatest (ysOf cs))\<rparr>"
proof -
  from assms obtain k ks where cs: "cs = k # ks" by (cases cs) auto
  have "computeBounds cs =
      foldl boundsStep \<lparr>minX = Num (rec_x k), maxX = Num (rec_x k),
                        minY = Num (rec_y k), maxY = Num (rec_y k)\<rparr> ks"
    by (simp add: cs computeBounds_def initialBounds_def boundsStep_def Math_min_def Math_max_def)
  then show ?thesis
    by (simp add: foldl_boundsStep_Num cs least_Cons greatest_Cons xsOf_def ysOf_def)
qed





section \<open>Painting in the plain-text program\<close>

text \<open>The bounds come from the records that are painted, so every write falls
  inside the grid and no assignment throws.\<close>

lemma assignCell_inside:
  assumes "rect w h g" "0 \<le> r" "r < int h" "0 \<le> c" "c < int w"
  shows "assignCell g r c v = Inr (writeCell g (nat r) (nat c) v)"
proof -
  have "nat r < h" using assms by simp
  then have "length (g ! nat r) = w" using assms(1) by (simp add: rect_row)
  then have "setIndex (g ! nat r) c v = (g ! nat r)[nat c := v]"
    using assms by (simp add: setIndex_inside)
  moreover have "nat r < length g" using assms by (simp add: rect_def)
  ultimately show ?thesis using assms(2) by (simp add: assignCell_def writeCell_def)
qed

lemma placeAll_inside:
  assumes "rect w h g"
    and "\<forall>k\<in>set cs. mny \<le> rec_y k \<and> rec_y k - mny < int h \<and> mnx \<le> rec_x k \<and> rec_x k - mnx < int w"
  shows "placeAll mnx mny g cs =
         Inr (foldl (\<lambda>g k. writeCell g (fst (plainCell mnx mny k)) (snd (plainCell mnx mny k)) (rec_char k)) g cs)"
  using assms
proof (induction cs arbitrary: g)
  case Nil
  then show ?case by simp
next
  case (Cons k cs)
  have a: "assignCell g (rec_y k - mny) (rec_x k - mnx) (rec_char k) =
           Inr (writeCell g (nat (rec_y k - mny)) (nat (rec_x k - mnx)) (rec_char k))"
  proof (rule assignCell_inside [OF Cons.prems(1)])
    show "0 \<le> rec_y k - mny" using Cons.prems(2) by simp
    show "rec_y k - mny < int h" using Cons.prems(2) by simp
    show "0 \<le> rec_x k - mnx" using Cons.prems(2) by simp
    show "rec_x k - mnx < int w" using Cons.prems(2) by simp
  qed
  have r: "rect w h (writeCell g (nat (rec_y k - mny)) (nat (rec_x k - mnx)) (rec_char k))"
    using Cons.prems(1) by (rule rect_writeCell)
  show ?case
    using Cons.IH [OF r] Cons.prems(2) by (simp add: a plainCell_def)
qed

lemma buildGrid_nonempty:
  assumes "cs \<noteq> []"
  shows "buildGrid cs =
     Inr (foldl (\<lambda>g k. writeCell g (fst (plainCell (least (xsOf cs)) (least (ysOf cs)) k))
                                   (snd (plainCell (least (xsOf cs)) (least (ysOf cs)) k)) (rec_char k))
            (blankGrid (greatest (xsOf cs) - least (xsOf cs) + 1)
                       (greatest (ysOf cs) - least (ysOf cs) + 1)) cs)"
proof -
  let ?W = "greatest (xsOf cs) - least (xsOf cs) + 1"
  let ?H = "greatest (ysOf cs) - least (ysOf cs) + 1"
  have r: "rect (nat ?W) (nat ?H) (blankGrid ?W ?H)" by (rule rect_blankGrid)
  have inside: "\<forall>k\<in>set cs. least (ysOf cs) \<le> rec_y k \<and> rec_y k - least (ysOf cs) < int (nat ?H)
                  \<and> least (xsOf cs) \<le> rec_x k \<and> rec_x k - least (xsOf cs) < int (nat ?W)"
  proof
    fix k assume k: "k \<in> set cs"
    then have x: "rec_x k \<in> set (xsOf cs)" and y: "rec_y k \<in> set (ysOf cs)"
      by (simp_all add: xsOf_def ysOf_def)
    show "least (ysOf cs) \<le> rec_y k \<and> rec_y k - least (ysOf cs) < int (nat ?H)
                  \<and> least (xsOf cs) \<le> rec_x k \<and> rec_x k - least (xsOf cs) < int (nat ?W)"
      using least_le [OF x] le_greatest [OF x] least_le [OF y] le_greatest [OF y] by simp
  qed
  show ?thesis
    using placeAll_inside [OF r inside]
    by (simp add: buildGrid_def computeBounds_extremes [OF assms])
qed

lemma buildGrid_rect:
  assumes "cs \<noteq> []"
  shows "\<exists>g. buildGrid cs = Inr g \<and>
     rect (nat (greatest (xsOf cs) - least (xsOf cs) + 1)) (nat (greatest (ysOf cs) - least (ysOf cs) + 1)) g"
  unfolding buildGrid_nonempty [OF assms]
  by (simp add: foldl_writeCell_rect [OF rect_blankGrid])

lemma plain_cell:
  assumes "cs \<noteq> []"
    and "r < nat (greatest (ysOf cs) - least (ysOf cs) + 1)"
    and "c < nat (greatest (xsOf cs) - least (xsOf cs) + 1)"
  shows "\<exists>g. buildGrid cs = Inr g \<and>
     g ! r ! c =
       (case find (\<lambda>k. rec_y k - least (ysOf cs) = int r \<and> rec_x k - least (xsOf cs) = int c) (rev cs) of
          None \<Rightarrow> '' ''
        | Some k \<Rightarrow> rec_char k)"
proof -
  let ?W = "greatest (xsOf cs) - least (xsOf cs) + 1"
  let ?H = "greatest (ysOf cs) - least (ysOf cs) + 1"
  let ?t = "plainCell (least (xsOf cs)) (least (ysOf cs))"
  let ?g = "foldl (\<lambda>g k. writeCell g (fst (?t k)) (snd (?t k)) (rec_char k)) (blankGrid ?W ?H) cs"
  have b: "buildGrid cs = Inr ?g" by (rule buildGrid_nonempty [OF assms(1)])
  have r: "rect (nat ?W) (nat ?H) (blankGrid ?W ?H)" by (rule rect_blankGrid)
  have range: "least (ysOf cs) \<le> rec_y k \<and> rec_y k \<le> greatest (ysOf cs)
             \<and> least (xsOf cs) \<le> rec_x k \<and> rec_x k \<le> greatest (xsOf cs)" if "k \<in> set cs" for k
  proof -
    from that have x: "rec_x k \<in> set (xsOf cs)" and y: "rec_y k \<in> set (ysOf cs)"
      by (simp_all add: xsOf_def ysOf_def)
    show ?thesis
      using least_le [OF x] le_greatest [OF x] least_le [OF y] le_greatest [OF y] by simp
  qed
  have inside: "\<forall>k\<in>set cs. fst (?t k) < nat ?H \<and> snd (?t k) < nat ?W"
  proof
    fix k assume "k \<in> set cs"
    from range [OF this] show "fst (?t k) < nat ?H \<and> snd (?t k) < nat ?W"
      by (auto simp: plainCell_def)
  qed
  have "?g ! r ! c =
       (case find (\<lambda>k. ?t k = (r, c)) (rev cs) of
          None \<Rightarrow> blankGrid ?W ?H ! r ! c | Some k \<Rightarrow> rec_char k)"
    by (rule foldl_writeCell_nth [OF r assms(2) assms(3) inside])
  moreover have "find (\<lambda>k. ?t k = (r, c)) (rev cs) =
      find (\<lambda>k. rec_y k - least (ysOf cs) = int r \<and> rec_x k - least (xsOf cs) = int c) (rev cs)"
    by (rule find_cong) (use range in \<open>auto simp: plainCell_def\<close>)
  moreover have "blankGrid ?W ?H ! r ! c = '' ''"
    using assms(2,3) by (rule blankGrid_nth)
  ultimately show ?thesis
    using b by (simp split: option.split)
qed


section \<open>Painting in the table program\<close>

lemma placeChar_rect:
  assumes "rect w h g"
  shows "placeChar g (xy, ch) =
     (if outside w h xy then g
      else writeCell g (nat (snd xy)) (nat (fst xy)) (cellText ch))"
proof (cases "outside w h xy")
  case True
  have len: "length g = h" using assms by (simp add: rect_def)
  show ?thesis
  proof (cases "0 < h")
    case h: True
    then have "length (g ! 0) = w" using assms by (simp add: rect_row)
    with True len show ?thesis
      by (cases xy) (auto simp: placeChar_def outside_def)
  next
    case False
    with True len show ?thesis
      by (cases xy) (auto simp: placeChar_def)
  qed
next
  case False
  obtain x y where xy: "xy = (x, y)" by (cases xy)
  from False have b: "0 \<le> x" "0 \<le> y" "y < int h" "x < int w"
    by (simp_all add: outside_def xy)
  have len: "length g = h" using assms by (simp add: rect_def)
  have "0 < h" using b by simp
  then have w0: "length (g ! 0) = w" using assms by (simp add: rect_row)
  have "nat y < h" using b by simp
  then have wy: "length (g ! nat y) = w" using assms by (simp add: rect_row)
  have "setIndex (g ! nat y) x (cellText ch) = (g ! nat y)[nat x := cellText ch]"
    using b wy by (simp add: setIndex_inside)
  then show ?thesis
    using False b len w0
    by (simp add: placeChar_def xy writeCell_def cellText_def Let_def)
qed

lemma placeChar_keeps_rect: "rect w h g \<Longrightarrow> rect w h (placeChar g r)"
  by (cases r) (simp add: placeChar_rect rect_writeCell)

lemma paint_keeps_rect: "rect w h g \<Longrightarrow> rect w h (paint g rs)"
  unfolding paint_def by (induction rs arbitrary: g) (simp_all add: placeChar_keeps_rect)

lemma paint_as_writes:
  "rect w h g \<Longrightarrow>
   paint g rs = foldl (\<lambda>g r. writeCell g (fst (tableCell r)) (snd (tableCell r)) (cellText (snd r))) g
                   (filter (\<lambda>r. \<not> outside w h (fst r)) rs)"
  unfolding paint_def
proof (induction rs arbitrary: g)
  case Nil
  then show ?case by simp
next
  case (Cons r rs)
  obtain xy ch where r: "r = (xy, ch)" by (cases r)
  have "rect w h (placeChar g r)" using Cons.prems by (rule placeChar_keeps_rect)
  from Cons.IH [OF this] show ?case
    using Cons.prems by (simp add: r placeChar_rect tableCell_def)
qed

lemma paint_skips_outside:
  assumes "rect w h g"
  shows "paint g rs = paint g (filter (\<lambda>r. \<not> outside w h (fst r)) rs)"
  by (simp add: paint_as_writes [OF assms])

lemma paint_cell:
  assumes "rect w h g" "r < h" "c < w"
  shows "paint g rs ! r ! c =
     (case find (\<lambda>k. fst k = (int c, int r)) (rev rs) of
        None \<Rightarrow> g ! r ! c
      | Some k \<Rightarrow> cellText (snd k))"
proof -
  let ?in = "\<lambda>k. \<not> outside w h (fst k)"
  have "paint g rs ! r ! c =
     (case find (\<lambda>k. tableCell k = (r, c)) (rev (filter ?in rs)) of
        None \<Rightarrow> g ! r ! c | Some k \<Rightarrow> cellText (snd k))"
    unfolding paint_as_writes [OF assms(1)]
    by (rule foldl_writeCell_nth [OF assms]) (auto simp: outside_def tableCell_def)
  moreover have "find (\<lambda>k. tableCell k = (r, c)) (filter ?in ks) =
                 find (\<lambda>k. fst k = (int c, int r)) ks" for ks
    using assms(2,3)
    by (induction ks) (auto simp: outside_def tableCell_def)
  ultimately show ?thesis by (simp add: rev_filter)
qed

lemma rect_paintedGrid: "rect (nat w) (nat h) (paintedGrid coords chars w h)"
  unfolding paintedGrid_def by (rule paint_keeps_rect [OF rect_blankGrid])

lemma buildAndRenderGrid_sized:
  assumes "length coords = length chars" "coords \<noteq> []"
    and "gridWidth coords = Num w" "gridHeight coords = Num h" "0 < w" "0 < h"
  shows "buildAndRenderGrid coords chars = Inr (map concat (rev (paintedGrid coords chars w h)))"
  using assms by (auto simp: buildAndRenderGrid_def)



text \<open>The lines are written from the last row of the grid to the first.\<close>

lemma table_rendered_bottom_to_top:
  assumes "buildAndRenderGrid coords chars = Inr out" "coords \<noteq> []"
  shows "\<exists>w h. gridWidth coords = Num w \<and> gridHeight coords = Num h \<and> 0 < h
           \<and> length out = nat h
           \<and> (\<forall>i<nat h. out ! i = concat (paintedGrid coords chars w h ! (nat h - 1 - i)))"
proof -
  from assms obtain w h where w: "gridWidth coords = Num w" and h: "gridHeight coords = Num h"
    and pos: "0 < w" "0 < h"
    and out: "out = map concat (rev (paintedGrid coords chars w h))"
    by (auto simp: buildAndRenderGrid_def split: if_splits jsnum.splits)
  have len: "length (paintedGrid coords chars w h) = nat h"
    using rect_paintedGrid [of w h coords chars] by (simp add: rect_def)
  have "\<forall>i<nat h. out ! i = concat (paintedGrid coords chars w h ! (nat h - 1 - i))"
    using len by (simp add: out rev_nth)
  with w h pos len out show ?thesis by auto
qed


section \<open>Parsing the lines of the plain-text program\<close>

lemma first_some_None: "(\<forall>x\<in>set xs. f x = None) \<Longrightarrow> first_some f xs = None"
  by (induction xs) simp_all

lemma parseLine_no_match:
  "(\<forall>p\<in>set patterns. regex_match p l = None) \<Longrightarrow> parseLine l = None"
  unfolding parseLine_def by (rule first_some_None) simp

lemma parseLines_unparsed:
  "parseLine (trim l) = None \<Longrightarrow> parseLines (pre @ l # post) = parseLines (pre @ post)"
  by (simp add: parseLines_def map_filter_def)

lemma decode_nonempty:
  assumes "parseCharacters content \<noteq> []"
  shows "\<exists>g. buildGrid (parseCharacters content) = Inr g
           \<and> decodeSecretMessage content = Inr (''Secret Message:'' # map concat g)"
  using buildGrid_rect [OF assms] by (auto simp: decodeSecretMessage_def assms)


section \<open>Extraction from the rows of the table program\<close>

lemma runs_Nil_iff: "runs p s = [] \<longleftrightarrow> (\<forall>c\<in>set s. \<not> p c)"
proof (cases "dropWhile (\<lambda>c. \<not> p c) s")
  case Nil
  have "runs p s = []" by (subst runs.simps) (simp only: Nil list.case)
  moreover from Nil have "\<forall>c\<in>set s. \<not> p c" by (simp only: dropWhile_eq_Nil_conv)
  ultimately show ?thesis by simp
next
  case (Cons c cs)
  then have "runs p s \<noteq> []" by (subst runs.simps) simp
  moreover have "p c" using hd_dropWhile [of "\<lambda>c. \<not> p c" s] Cons by simp
  moreover have "c \<in> set s" using set_dropWhileD [of c "\<lambda>c. \<not> p c" s] Cons by simp
  ultimately show ?thesis by blast
qed


lemma runs_single_class:
  assumes "\<forall>c\<in>set s. p c"
  shows "length (runs p s) \<le> 1"
proof (cases s)
  case Nil
  then show ?thesis by (subst runs.simps) simp
next
  case (Cons c cs)
  with assms have d: "dropWhile (\<lambda>c. \<not> p c) s = c # cs" by simp
  have t: "dropWhile p cs = []" using assms Cons by simp
  have e: "runs p [] = []" by (subst runs.simps) simp
  show ?thesis by (subst runs.simps) (simp add: d t e)
qed






text \<open>
  The call \<open>m.trim()\<close> is made on the first match array of \<open>/\D+/g\<close>, so a row whose
  text holds a character that is not a digit ends the extraction with a
  \<open>TypeError\<close>, before the number of digit runs is looked at. A text of digits
  only has at most one digit run. Hence no row is extracted successfully.
\<close>

lemma mapE_trim_method:
  "ms \<noteq> [] \<Longrightarrow> mapE trim_method ms = Inl (TypeError ''m.trim is not a function'')"
  by (cases ms) (simp_all add: trim_method_def)

lemma extractRow_throws:
  assumes "\<exists>c\<in>set t. \<not> isDigit c"
  shows "extractRow (Some t) = Inl (TypeError ''m.trim is not a function'')"
proof -
  have "runs isNonDigit t \<noteq> []" using assms by (simp add: runs_Nil_iff isNonDigit_def)
  then have "matchAll isNonDigit t \<noteq> []" by (simp add: matchAll_def)
  then show ?thesis by (simp add: extractRow_def mapE_trim_method)
qed

lemma extractRow_two_numbers_throws:
  assumes "2 \<le> length (runs isDigit t)"
  shows "extractRow (Some t) = Inl (TypeError ''m.trim is not a function'')"
proof -
  have "\<not> (\<forall>c\<in>set t. isDigit c)"
    using runs_single_class [of t isDigit] assms by auto
  then show ?thesis by (simp add: extractRow_throws)
qed

lemma extractRow_fails: "\<exists>e. extractRow r = Inl e"
proof (cases "\<exists>t. r = Some t \<and> (\<exists>c\<in>set t. \<not> isDigit c)")
  case True
  then show ?thesis using extractRow_throws by auto
next
  case False
  define tc where "tc = (case r of None \<Rightarrow> [] | Some t \<Rightarrow> t)"
  from False have all: "\<forall>c\<in>set tc. isDigit c" by (cases r) (auto simp: tc_def)
  then have "runs isNonDigit tc = []" by (simp add: runs_Nil_iff isNonDigit_def)
  moreover have "length (runs isDigit tc) \<le> 1" using all by (rule runs_single_class)
  ultimately show ?thesis
    by (simp add: extractRow_def matchAll_def tc_def [symmetric])
qed

lemma extractDataFromRows_succeeds_iff:
  "(\<exists>res. extractDataFromRows rows = Inr res) \<longleftrightarrow> rows = []"
proof (cases rows)
  case Nil
  then show ?thesis by simp
next
  case (Cons r rs)
  from extractRow_fails [of r] obtain e where "extractRow r = Inl e" ..
  with Cons show ?thesis by simp
qed

lemma table_row_digits_only:
  "extractDataFromRows [Some ''5''] =
     Inl (DataError (''Row missing at least two coordinates: '' @ [CHR 0x22] @ ''5'' @ [CHR 0x22]))"
  by code_simp

lemma table_example_records_rendered:
  "buildAndRenderGrid [(0, 0), (1, 1)] [Arr [''X''], Arr [''Y'']] = Inr ['' Y'', ''X '']"
  by code_simp


section \<open>The example of the plain-text program\<close>

text \<open>
  Claim C1. The three lines \<open>A 3 4\<close>, \<open>B, 1, 2\<close> and \<open>C 0 0\<close> parse to three records
  with bounds \<open>minX = 0\<close>, \<open>maxX = 3\<close>, \<open>minY = 0\<close>, \<open>maxY = 4\<close>; the grid has five rows
  of four cells, with \<open>A\<close> in row 4 column 3, \<open>B\<close> in row 2 column 1, \<open>C\<close> in row 0
  column 0 and a space in every other cell.
\<close>

theorem plaintext_three_lines:
  "parseLines [''A 3 4'', ''B, 1, 2'', ''C 0 0''] =
     [\<lparr>rec_char = ''A'', rec_x = 3, rec_y = 4\<rparr>,
      \<lparr>rec_char = ''B'', rec_x = 1, rec_y = 2\<rparr>,
      \<lparr>rec_char = ''C'', rec_x = 0, rec_y = 0\<rparr>]
   \<and> parseCharacters exampleContent = parseLines [''A 3 4'', ''B, 1, 2'', ''C 0 0'']
   \<and> computeBounds (parseCharacters exampleContent) =
       \<lparr>minX = Num 0, maxX = Num 3, minY = Num 0, maxY = Num 4\<rparr>
   \<and> buildGrid (parseCharacters exampleContent) =
       Inr [[''C'', '' '', '' '', '' ''],
            ['' '', '' '', '' '', '' ''],
            ['' '', ''B'', '' '', '' ''],
            ['' '', '' '', '' '', '' ''],
            ['' '', '' '', '' '', ''A'']]
   \<and> decodeSecretMessage exampleContent =
       Inr [''Secret Message:'', ''C   '', ''    '', '' B  '', ''    '', ''   A'']"
proof -
  have "parseLines [''A 3 4'', ''B, 1, 2'', ''C 0 0''] =
     [\<lparr>rec_char = ''A'', rec_x = 3, rec_y = 4\<rparr>,
      \<lparr>rec_char = ''B'', rec_x = 1, rec_y = 2\<rparr>,
      \<lparr>rec_char = ''C'', rec_x = 0, rec_y = 0\<rparr>]"
    by code_simp
  moreover have "parseCharacters exampleContent = parseLines [''A 3 4'', ''B, 1, 2'', ''C 0 0'']"
    by code_simp
  moreover have "computeBounds (parseCharacters exampleContent) =
       \<lparr>minX = Num 0, maxX = Num 3, minY = Num 0, maxY = Num 4\<rparr>"
    by code_simp
  moreover have "buildGrid (parseCharacters exampleContent) =
       Inr [[''C'', '' '', '' '', '' ''],
            ['' '', '' '', '' '', '' ''],
            ['' '', ''B'', '' '', '' ''],
            ['' '', '' '', '' '', '' ''],
            ['' '', '' '', '' '', ''A'']]"
    by code_simp
  moreover have "decodeSecretMessage exampleContent =
       Inr [''Secret Message:'', ''C   '', ''    '', '' B  '', ''    '', ''   A'']"
    by code_simp
  ultimately show ?thesis by blast
qed

section \<open>The character field of an extracted row\<close>

text \<open>
  Claim C2. For a row whose text holds at least two digit runs, the character pushed
  on \<open>chars\<close> is to be the array of the trimmed, non-empty runs of non-digits (a
  single space when there is none), and that value is what is written into the cell.
  The source is written to compute this, but it calls \<open>trim\<close> on the match array
  instead of on \<open>m[0]\<close>: for the row \<open>X 0 0\<close> the extraction ends with a
  \<open>TypeError\<close> and pushes no record.
\<close>

theorem table_row_with_two_numbers_throws:
  "extractDataFromRows [Some ''X 0 0''] = Inl (TypeError ''m.trim is not a function'')"
  by code_simp

section \<open>The order of the lines of the table program\<close>

text \<open>
  Claim C3. The grid is to be written from the row of the highest index down to
  row 0, and the rows \<open>X 0 0\<close> and \<open>Y 1 1\<close> are to give two lines, the line of
  \<open>Y\<close> first. The lines are written in that order (lemmas
  \<open>table_rendered_bottom_to_top\<close> and \<open>table_example_records_rendered\<close>), but
  the two rows never reach the renderer: their extraction throws a \<open>TypeError\<close>.
\<close>

theorem table_example_throws:
  "extractDataFromRows [Some ''X 0 0'', Some ''Y 1 1''] = Inl (TypeError ''m.trim is not a function'')
   \<and> renderRows [Some ''X 0 0'', Some ''Y 1 1''] = Inl (TypeError ''m.trim is not a function'')"
  by (intro conjI; code_simp)

section \<open>Rows with fewer than two numbers\<close>

text \<open>
  Claim C4. A row with fewer than two digit runs is to end the extraction with a
  \<open>DataError\<close> whose message holds the text of the row. For the row \<open>A 5\<close> the
  extraction ends with the \<open>TypeError\<close> of \<open>m.trim()\<close> instead, whose message does
  not hold the text; the \<open>DataError\<close> is reached only by a text without any
  non-digit (lemma \<open>table_row_digits_only\<close>).
\<close>

theorem table_row_with_one_number_throws:
  "extractDataFromRows [Some ''A 5''] = Inl (TypeError ''m.trim is not a function'')"
  by code_simp

section \<open>The size of the grid\<close>



section \<open>Unmatched lines and the error for no data\<close>

text \<open>
  Claim C6. In the plain-text program a trimmed line that none of the three patterns
  matches gives no record and no error: the records are those of the other lines.
  The program throws the error \<open>No character data found\<close> exactly when no record
  was parsed, and writes the grid otherwise.
\<close>

theorem plaintext_unmatched_lines_and_no_data:
  "((\<forall>p\<in>set patterns. regex_match p (trim l) = None) \<longrightarrow>
      parseLine (trim l) = None
      \<and> parseLines (pre @ l # post) = parseLines (pre @ post)
      \<and> (split_nl content = pre @ l # post \<longrightarrow> parseCharacters content = parseLines (pre @ post)))
   \<and> (decodeSecretMessage content' = Inl (Error ''No character data found'')
        \<longleftrightarrow> parseCharacters content' = [])
   \<and> (parseCharacters content' \<noteq> [] \<longrightarrow>
        (\<exists>g. buildGrid (parseCharacters content') = Inr g
            \<and> decodeSecretMessage content' = Inr (''Secret Message:'' # map concat g)))"
proof (intro conjI impI)
  assume a: "\<forall>p\<in>set patterns. regex_match p (trim l) = None"
  then show n: "parseLine (trim l) = None" by (rule parseLine_no_match)
  then show p: "parseLines (pre @ l # post) = parseLines (pre @ post)" by (rule parseLines_unparsed)
  assume "split_nl content = pre @ l # post"
  with p show "parseCharacters content = parseLines (pre @ post)" by (simp add: parseCharacters_def)
next
  show "decodeSecretMessage content' = Inl (Error ''No character data found'')
        \<longleftrightarrow> parseCharacters content' = []"
  proof (cases "parseCharacters content' = []")
    case True
    then show ?thesis by (simp add: decodeSecretMessage_def)
  next
    case False
    from decode_nonempty [OF this] False show ?thesis by auto
  qed
next
  assume "parseCharacters content' \<noteq> []"
  then show "\<exists>g. buildGrid (parseCharacters content') = Inr g
            \<and> decodeSecretMessage content' = Inr (''Secret Message:'' # map concat g)"
    by (rule decode_nonempty)
qed

theorem plaintext_unmatched_lines_and_no_data_witness:
  "list_all (\<lambda>p. regex_match p (trim ''  hello world '') = None) patterns
   \<and> parseLine (trim ''  hello world '') = None
   \<and> parseLines ([''A 3 4''] @ ''  hello world '' # [''C 0 0'']) = parseLines ([''A 3 4''] @ [''C 0 0''])
   \<and> parseCharacters ''hello'' = []
   \<and> decodeSecretMessage ''hello'' = Inl (Error ''No character data found'')
   \<and> parseCharacters ''A 3 4'' \<noteq> []
   \<and> (\<exists>g. decodeSecretMessage ''A 3 4'' = Inr (''Secret Message:'' # map concat g))"
proof -
  have m: "\<forall>p\<in>set patterns. regex_match p (trim ''  hello world '') = None"
    unfolding patterns_def by (simp only: list.set ball_simps; intro conjI; code_simp)
  have e: "parseCharacters ''hello'' = []" by code_simp
  have n: "parseCharacters ''A 3 4'' \<noteq> []" by code_simp
  have t1: "parseLine (trim ''  hello world '') = None
       \<and> parseLines ([''A 3 4''] @ ''  hello world '' # [''C 0 0'']) = parseLines ([''A 3 4''] @ [''C 0 0''])"
    using plaintext_unmatched_lines_and_no_data [of "''  hello world ''" "[''A 3 4'']" "[''C 0 0'']" "[]" "''hello''"] m
    by blast
  have t2: "decodeSecretMessage ''hello'' = Inl (Error ''No character data found'')"
    using plaintext_unmatched_lines_and_no_data [of "[]" "[]" "[]" "[]" "''hello''"] e by blast
  have t3: "\<exists>g. decodeSecretMessage ''A 3 4'' = Inr (''Secret Message:'' # map concat g)"
    using plaintext_unmatched_lines_and_no_data [of "[]" "[]" "[]" "[]" "''A 3 4''"] n by blast
  have m': "list_all (\<lambda>p. regex_match p (trim ''  hello world '') = None) patterns"
    using m by (simp only: list_all_iff)
  show ?thesis using m' e n t1 t2 t3 by blast
qed

section \<open>Records outside the grid of the table program\<close>

text \<open>
  Claim C7. In the painting loop of the table program a record with \<open>x < 0\<close>,
  \<open>y < 0\<close>, \<open>y\<close> not below the height or \<open>x\<close> not below the width leaves the grid
  as it is; a record inside the grid is written to its cell; the shape of the grid
  never changes; the loop paints what it would paint for the records inside the grid
  alone, and \<open>buildAndRenderGrid\<close> returns those lines without an error once the
  size has been accepted.
\<close>

theorem table_out_of_bounds_skipped:
  assumes "rect w h g"
  shows "(outside w h xy \<longrightarrow> placeChar g (xy, ch) = g)
       \<and> (\<not> outside w h xy \<longrightarrow>
            placeChar g (xy, ch) = writeCell g (nat (snd xy)) (nat (fst xy)) (cellText ch))
       \<and> rect w h (placeChar g (xy, ch))
       \<and> rect w h (paint g rs)
       \<and> paint g rs = paint g (filter (\<lambda>r. \<not> outside w h (fst r)) rs)
       \<and> (length coords = length chars \<and> coords \<noteq> [] \<and> gridWidth coords = Num (int w)
            \<and> gridHeight coords = Num (int h) \<and> 0 < w \<and> 0 < h \<longrightarrow>
          buildAndRenderGrid coords chars =
            Inr (map concat (rev (paint (blankGrid (int w) (int h))
                   (filter (\<lambda>r. \<not> outside w h (fst r)) (zip coords chars))))))"
proof (intro conjI impI)
  show "rect w h (placeChar g (xy, ch))" using assms by (rule placeChar_keeps_rect)
  show "rect w h (paint g rs)" using assms by (rule paint_keeps_rect)
  show "paint g rs = paint g (filter (\<lambda>r. \<not> outside w h (fst r)) rs)"
    using assms by (rule paint_skips_outside)
next
  assume "outside w h xy"
  then show "placeChar g (xy, ch) = g" by (simp add: placeChar_rect [OF assms])
next
  assume "\<not> outside w h xy"
  then show "placeChar g (xy, ch) = writeCell g (nat (snd xy)) (nat (fst xy)) (cellText ch)"
    by (simp add: placeChar_rect [OF assms])
next
  assume a: "length coords = length chars \<and> coords \<noteq> [] \<and> gridWidth coords = Num (int w)
            \<and> gridHeight coords = Num (int h) \<and> 0 < w \<and> 0 < h"
  have b: "rect w h (blankGrid (int w) (int h))"
    using rect_blankGrid [of "int w" "int h"] by simp
  have "buildAndRenderGrid coords chars =
          Inr (map concat (rev (paintedGrid coords chars (int w) (int h))))"
    by (rule buildAndRenderGrid_sized) (use a in simp_all)
  then show "buildAndRenderGrid coords chars =
            Inr (map concat (rev (paint (blankGrid (int w) (int h))
                   (filter (\<lambda>r. \<not> outside w h (fst r)) (zip coords chars)))))"
    using paint_skips_outside [OF b, of "zip coords chars"] by (simp add: paintedGrid_def)
qed

theorem table_out_of_bounds_skipped_witness:
  "rect 3 2 (blankGrid 3 2)
   \<and> outside 3 2 (- 1, 0) \<and> placeChar (blankGrid 3 2) ((- 1, 0), Arr [''X'']) = blankGrid 3 2
   \<and> outside 3 2 (3, 1) \<and> placeChar (blankGrid 3 2) ((3, 1), Arr [''X'']) = blankGrid 3 2
   \<and> \<not> outside 3 2 (2, 1)
   \<and> placeChar (blankGrid 3 2) ((2, 1), Arr [''Y'']) = writeCell (blankGrid 3 2) 1 2 ''Y''
   \<and> gridWidth [(- 1, 0), (2, 1)] = Num 3 \<and> gridHeight [(- 1, 0), (2, 1)] = Num 2
   \<and> buildAndRenderGrid [(- 1, 0), (2, 1)] [Arr [''X''], Arr [''Y'']] = Inr [''  Y'', ''   '']"
proof -
  have r: "rect 3 2 (blankGrid 3 2)" using rect_blankGrid [of 3 2] by simp
  have o1: "outside 3 2 (- 1, 0)" and o2: "outside 3 2 (3, 1)" and o3: "\<not> outside 3 2 (2, 1)"
    by (simp_all add: outside_def)
  have w: "gridWidth [(- 1, 0), (2, 1)] = Num 3" and h: "gridHeight [(- 1, 0), (2, 1)] = Num 2"
    by code_simp+
  have e: "map concat (rev (paint (blankGrid 3 2)
                   (filter (\<lambda>r. \<not> outside 3 2 (fst r)) (zip [(- 1, 0), (2, 1)] [Arr [''X''], Arr [''Y'']])))) = [''  Y'', ''   '']"
    by (simp add: outside_def paint_def placeChar_def blankGrid_def setIndex_def numeral_2_eq_2 numeral_3_eq_3)
  have c: "cellText (Arr [''Y'']) = ''Y''" by code_simp
  have p1: "placeChar (blankGrid 3 2) ((- 1, 0), Arr [''X'']) = blankGrid 3 2"
    using table_out_of_bounds_skipped [OF r, of "(- 1, 0)" "Arr [''X'']" "[]" "[]" "[]"] o1 by blast
  have p2: "placeChar (blankGrid 3 2) ((3, 1), Arr [''X'']) = blankGrid 3 2"
    using table_out_of_bounds_skipped [OF r, of "(3, 1)" "Arr [''X'']" "[]" "[]" "[]"] o2 by blast
  have p3: "placeChar (blankGrid 3 2) ((2, 1), Arr [''Y'']) = writeCell (blankGrid 3 2) 1 2 ''Y''"
    using table_out_of_bounds_skipped [OF r, of "(2, 1)" "Arr [''Y'']" "[]" "[]" "[]"] o3 c by simp
  have b: "buildAndRenderGrid [(- 1, 0), (2, 1)] [Arr [''X''], Arr [''Y'']] = Inr [''  Y'', ''   '']"
    using table_out_of_bounds_skipped [OF r, of "(0, 0)" "Arr []" "[]" "[(- 1, 0), (2, 1)]" "[Arr [''X''], Arr [''Y'']]"]
      w h e by simp
  show ?thesis using r o1 o2 o3 w h p1 p2 p3 b by blast
qed

section \<open>No rows in the table program\<close>

text \<open>
  Claim C8. With no row the extraction returns no coordinates and no characters, and
  for an empty record list \<open>buildAndRenderGrid\<close> writes exactly one empty line and
  throws nothing.
\<close>

theorem table_no_records_one_empty_line:
  "extractDataFromRows [] = Inr ([], [])
   \<and> buildAndRenderGrid [] [] = Inr [[]]
   \<and> renderRows [] = Inr [[]]"
  by (simp add: buildAndRenderGrid_def renderRows_def)

section \<open>Several records for one cell\<close>

text \<open>
  Claim C9. In both programs a cell of the painted grid holds the character of the
  last record, in the order of the list, that is written to this cell, and a space
  when there is none; so a later record overwrites an earlier one and the records
  of other cells do not matter. In the table program the text written for a record
  is \<open>String(ch)\<close>.
\<close>

theorem last_write_wins:
  "(cs \<noteq> [] \<and> r < nat (greatest (ysOf cs) - least (ysOf cs) + 1)
      \<and> c < nat (greatest (xsOf cs) - least (xsOf cs) + 1) \<longrightarrow>
     (\<exists>g. buildGrid cs = Inr g \<and>
        g ! r ! c =
          (case find (\<lambda>k. rec_y k - least (ysOf cs) = int r \<and> rec_x k - least (xsOf cs) = int c)
                     (rev cs) of
             None \<Rightarrow> '' ''
           | Some k \<Rightarrow> rec_char k)))
   \<and> (r' < nat h \<and> c' < nat w \<longrightarrow>
       paintedGrid coords chars w h ! r' ! c' =
         (case find (\<lambda>k. fst k = (int c', int r')) (rev (zip coords chars)) of
            None \<Rightarrow> '' ''
          | Some k \<Rightarrow> cellText (snd k)))"
proof (intro conjI impI)
  assume "cs \<noteq> [] \<and> r < nat (greatest (ysOf cs) - least (ysOf cs) + 1)
      \<and> c < nat (greatest (xsOf cs) - least (xsOf cs) + 1)"
  then show "\<exists>g. buildGrid cs = Inr g \<and>
        g ! r ! c =
          (case find (\<lambda>k. rec_y k - least (ysOf cs) = int r \<and> rec_x k - least (xsOf cs) = int c)
                     (rev cs) of
             None \<Rightarrow> '' ''
           | Some k \<Rightarrow> rec_char k)"
    by (intro plain_cell) simp_all
next
  assume a: "r' < nat h \<and> c' < nat w"
  then have "blankGrid w h ! r' ! c' = '' ''" by (simp add: blankGrid_nth)
  moreover have "paint (blankGrid w h) (zip coords chars) ! r' ! c' =
     (case find (\<lambda>k. fst k = (int c', int r')) (rev (zip coords chars)) of
        None \<Rightarrow> blankGrid w h ! r' ! c'
      | Some k \<Rightarrow> cellText (snd k))"
    by (rule paint_cell [OF rect_blankGrid]) (use a in simp_all)
  ultimately show "paintedGrid coords chars w h ! r' ! c' =
         (case find (\<lambda>k. fst k = (int c', int r')) (rev (zip coords chars)) of
            None \<Rightarrow> '' ''
          | Some k \<Rightarrow> cellText (snd k))"
    by (simp add: paintedGrid_def split: option.split)
qed

theorem last_write_wins_witness:
  "(\<exists>g. buildGrid [\<lparr>rec_char = ''A'', rec_x = 3, rec_y = 4\<rparr>,
                    \<lparr>rec_char = ''B'', rec_x = 1, rec_y = 2\<rparr>,
                    \<lparr>rec_char = ''C'', rec_x = 3, rec_y = 4\<rparr>] = Inr g \<and> g ! 2 ! 2 = ''C'')
   \<and> paintedGrid [(1, 1), (0, 0), (1, 1)] [Arr [''X''], Arr [''Y''], Arr [''Z'']] 2 2 ! 1 ! 1 = ''Z''"
  using last_write_wins [of "[\<lparr>rec_char = ''A'', rec_x = 3, rec_y = 4\<rparr>,
                    \<lparr>rec_char = ''B'', rec_x = 1, rec_y = 2\<rparr>,
                    \<lparr>rec_char = ''C'', rec_x = 3, rec_y = 4\<rparr>]" 2 2 1 2 1 2
                    "[(1, 1), (0, 0), (1, 1)]" "[Arr [''X''], Arr [''Y''], Arr [''Z'']]"]
  by (simp add: least_def greatest_def xsOf_def ysOf_def cellText_def)

section \<open>The skip branch in the composed table program\<close>



end
